theory Spec2Isabelle
  imports Complex_Main "HOL-Library.Sublist" "HOL-Library.Product_Lexorder"
begin

section \<open>Data model (app/models.py)\<close>

text \<open>
  Python strings are modelled as \<^typ>\<open>string\<close>: a list of characters whose length is
  the number of characters, as \<open>len\<close> counts them. Python floats that are only compared
  (scores, prices, radii) are modelled as \<^typ>\<open>real\<close>; an \<open>Optional\<close> field or a
  dictionary key that may be absent is an \<^typ>\<open>'a option\<close>.
\<close>

datatype error = ValidationError

record ConversationMessage =
  msg_text :: string
  is_user :: bool

record Preferences =
  covered :: "bool option"
  safety_priority :: "string option"
  accessibility :: "bool option"
  other :: "string option"

record ParseIntentResponse =
  location_query :: string
  duration_minutes :: int
  start_hour :: "string option"
  max_price :: "real option"
  preferences :: "Preferences option"
  needs_clarification :: "bool option"
  clarification_message :: "string option"
  is_more_request :: "bool option"
  requested_radius_km :: "real option"
  is_closest_request :: "bool option"
  is_cheapest_request :: "bool option"

text \<open>
  \<open>UserIntent\<close>: the request model of the recommendation endpoint. Its \<open>preferences\<close>
  dictionary only feeds the oracle's prompt and is kept here at the type of the
  \<open>Preferences\<close> model.
\<close>

record UserIntent =
  location_query :: string
  duration_minutes :: int
  start_hour :: "string option"
  max_price :: "real option"
  preferences :: "Preferences option"
  is_more_request :: "bool option"
  requested_radius_km :: "real option"
  is_closest_request :: "bool option"
  is_cheapest_request :: "bool option"

record ParkingSlot =
  slot_id :: string
  lat :: real
  lng :: real
  price_per_hour :: real
  distance_m :: int
  is_available :: bool
  address :: "string option"
  location_name :: "string option"
  covered :: "bool option"
  safety_rating :: "real option"

record SlotRanking =
  slot_id :: string
  score :: real

record RecommendSlotResponse =
  best_slot_id :: string
  recommended_slot_ids :: "string list"
  ranking :: "SlotRanking list"
  explanation_for_user :: string
  has_more_available :: "bool option"

text \<open>
  The dictionary returned by the ranking oracle (\<open>result\<close> in \<open>recommend_best_slot\<close>).
  The keys read with \<open>result[...]\<close> are fields; the keys read with \<open>result.get\<close> are
  optional, \<open>None\<close> standing for an absent key.
\<close>

record RankingResult =
  best_slot_id :: string
  recommended_slot_ids :: "string list option"
  ranking :: "SlotRanking list"
  explanation_for_user :: string
  has_more_available :: "bool option"

text \<open>Python truthiness of an optional boolean: \<open>None\<close> and \<open>False\<close> are falsy.\<close>

definition truthy :: "bool option \<Rightarrow> bool" where
  "truthy b = (b = Some True)"

section \<open>Recommendation (app/services/ai_logic.py, recommend_best_slot)\<close>

text \<open>
  \<open>SlotRanking(**item)\<close>: the model's \<open>score\<close> field is declared with \<open>ge=0, le=1\<close>, so
  constructing it from an item whose score lies outside the bounds raises a validation
  error. The list comprehension stops at the first item that raises.
\<close>

definition SlotRanking_init :: "SlotRanking \<Rightarrow> error + SlotRanking" where
  "SlotRanking_init item =
     (if 0 \<le> SlotRanking.score item \<and> SlotRanking.score item \<le> 1
      then Inr item else Inl ValidationError)"

fun ranking_items :: "SlotRanking list \<Rightarrow> error + SlotRanking list" where
  "ranking_items [] = Inr []"
| "ranking_items (item # items) =
     (case SlotRanking_init item of
        Inl e \<Rightarrow> Inl e
      | Inr r \<Rightarrow> (case ranking_items items of Inl e \<Rightarrow> Inl e | Inr rs \<Rightarrow> Inr (r # rs)))"

text \<open>
  The two dictionary comprehensions. A later entry with the same key replaces an
  earlier one, so the association list is searched from its end.
\<close>

definition slot_dict :: "ParkingSlot list \<Rightarrow> (string \<rightharpoonup> ParkingSlot)" where
  "slot_dict slots = map_of (rev (map (\<lambda>slot. (ParkingSlot.slot_id slot, slot)) slots))"

definition ranking_dict :: "SlotRanking list \<Rightarrow> (string \<rightharpoonup> real)" where
  "ranking_dict rk = map_of (rev (map (\<lambda>r. (SlotRanking.slot_id r, SlotRanking.score r)) rk))"

text \<open>
  The sort key of the missing slots, a Python tuple compared lexicographically:
  \<open>(ranking_dict.get(sid, 0), -slot_dict[sid].distance_m if sid in slot_dict else 999999)\<close>.
  Its first component is \<open>oracle_score\<close>.
\<close>

definition oracle_score :: "SlotRanking list \<Rightarrow> string \<Rightarrow> real" where
  "oracle_score rk sid = (case ranking_dict rk sid of None \<Rightarrow> 0 | Some s \<Rightarrow> s)"

definition missing_key :: "SlotRanking list \<Rightarrow> ParkingSlot list \<Rightarrow> string \<Rightarrow> real \<times> int" where
  "missing_key rk slots sid =
     (oracle_score rk sid,
      case slot_dict slots sid of Some slot \<Rightarrow> - ParkingSlot.distance_m slot | None \<Rightarrow> 999999)"

text \<open>
  \<open>list.sort(key=f, reverse=True)\<close>: a stable sort in descending key order; elements with
  equal keys keep their original order (the list is reversed, sorted stably in ascending
  order, and reversed again).
\<close>

definition sort_reverse :: "('a \<Rightarrow> 'k::linorder) \<Rightarrow> 'a list \<Rightarrow> 'a list" where
  "sort_reverse f xs = rev (sort_key f (rev xs))"

text \<open>\<open>[best] + [sid for sid in ids if sid != best]\<close>, written three times in the source.\<close>

definition best_first :: "string \<Rightarrow> string list \<Rightarrow> string list" where
  "best_first best ids = best # filter (\<lambda>sid. sid \<noteq> best) ids"

text \<open>Line 306: \<open>result.get("recommended_slot_ids", [])\<close>.\<close>

definition oracle_ids :: "RankingResult \<Rightarrow> string list" where
  "oracle_ids result =
     (case RankingResult.recommended_slot_ids result of None \<Rightarrow> [] | Some ids \<Rightarrow> ids)"

text \<open>Lines 307-309: the list is given the best id, in front, when it lacks it.\<close>

definition normalize_ids :: "RankingResult \<Rightarrow> string list" where
  "normalize_ids result =
     (let recommended = oracle_ids result
      in if recommended = [] \<or> RankingResult.best_slot_id result \<notin> set recommended
         then best_first (RankingResult.best_slot_id result) recommended
         else recommended)"

text \<open>Lines 315-325: the slots the list lacks are appended, sorted by the key above.\<close>

definition add_missing :: "SlotRanking list \<Rightarrow> ParkingSlot list \<Rightarrow> string list \<Rightarrow> string list" where
  "add_missing rk slots recommended =
     (let all_slot_ids = map ParkingSlot.slot_id slots
      in if length recommended < length all_slot_ids
         then recommended @
              sort_reverse (missing_key rk slots)
                (filter (\<lambda>sid. sid \<notin> set recommended) all_slot_ids)
         else recommended)"

text \<open>Lines 327-328 and 333-334: \<open>if ids and ids[0] != best: ids = [best] + ...\<close>.\<close>

definition ensure_first :: "string \<Rightarrow> string list \<Rightarrow> string list" where
  "ensure_first best ids =
     (case ids of
        [] \<Rightarrow> ids
      | first # _ \<Rightarrow> if first \<noteq> best then best_first best ids else ids)"

text \<open>Lines 311-341: the branch on the request type.\<close>

definition adjust_ids ::
  "UserIntent \<Rightarrow> ParkingSlot list \<Rightarrow> RankingResult \<Rightarrow> SlotRanking list \<Rightarrow> string list" where
  "adjust_ids user_intent slots result rk =
     (let recommended = normalize_ids result;
          best = RankingResult.best_slot_id result
      in if truthy (UserIntent.is_more_request user_intent)
         then ensure_first best (add_missing rk slots recommended)
         else if truthy (UserIntent.is_closest_request user_intent)
                 \<or> truthy (UserIntent.is_cheapest_request user_intent)
         then ensure_first best recommended
         else if length recommended > 10 then take 10 recommended else recommended)"

text \<open>
  \<open>recommend_best_slot\<close>, from the oracle's reply onwards. The prompt sent to the oracle
  (built from the intent, the target location and the slots) is text for the oracle and
  is not modelled; the oracle's reply \<open>result\<close> is a parameter.
\<close>

definition recommend_best_slot ::
  "UserIntent \<Rightarrow> ParkingSlot list \<Rightarrow> RankingResult \<Rightarrow> error + RecommendSlotResponse" where
  "recommend_best_slot user_intent slots result =
     (case ranking_items (RankingResult.ranking result) of
        Inl e \<Rightarrow> Inl e
      | Inr rk \<Rightarrow>
          Inr \<lparr> RecommendSlotResponse.best_slot_id = RankingResult.best_slot_id result,
                RecommendSlotResponse.recommended_slot_ids = adjust_ids user_intent slots result rk,
                RecommendSlotResponse.ranking = rk,
                RecommendSlotResponse.explanation_for_user = RankingResult.explanation_for_user result,
                RecommendSlotResponse.has_more_available =
                  (case RankingResult.has_more_available result of
                     None \<Rightarrow> Some False | Some b \<Rightarrow> Some b) \<rparr>)"

section \<open>The recommendation endpoint (app/main.py, recommend_slot)\<close>

record Location =
  lat :: real
  lng :: real

record RecommendSlotRequest =
  user_intent :: UserIntent
  location :: Location
  slots :: "ParkingSlot list"

datatype HTTPException = HTTPException nat

text \<open>
  The endpoint calls \<open>recommend_best_slot\<close> on the request's fields. A validation error
  is a \<open>ValueError\<close>, which the handler turns into status 400.
\<close>

definition recommend_slot ::
  "RecommendSlotRequest \<Rightarrow> RankingResult \<Rightarrow> HTTPException + RecommendSlotResponse" where
  "recommend_slot request result =
     (case recommend_best_slot (user_intent request) (slots request) result of
        Inl ValidationError \<Rightarrow> Inl (HTTPException 400)
      | Inr response \<Rightarrow> Inr response)"

section \<open>Start hour validation (app/main.py, validate_start_hour)\<close>

text \<open>The current time of day, \<open>datetime.now()\<close>, is a parameter.\<close>

record datetime =
  hour :: nat
  minute :: nat

text \<open>
  \<open>str.strip()\<close> removes leading and trailing whitespace; among the characters of
  \<^typ>\<open>char\<close> these are the ones below.
\<close>

definition isspace :: "char \<Rightarrow> bool" where
  "isspace c = (c \<in> set [CHR 0x09, CHR 0x0A, CHR 0x0B, CHR 0x0C, CHR 0x0D, CHR 0x1C,
                          CHR 0x1D, CHR 0x1E, CHR 0x1F, CHR 0x20, CHR 0x85, CHR 0xA0])"

definition strip :: "string \<Rightarrow> string" where
  "strip s = rev (dropWhile isspace (rev (dropWhile isspace s)))"

definition isdigit :: "char \<Rightarrow> bool" where
  "isdigit c = (c \<in> set ''0123456789'')"

definition digit_value :: "char \<Rightarrow> nat" where
  "digit_value c = of_char c - 48"

text \<open>
  \<open>re.match(r'^\d{2}:\d{2}$', start_hour)\<close>: two digits, a colon, two digits; \<open>$\<close> also
  matches just before a final newline.
\<close>

fun match_HH_mm :: "string \<Rightarrow> bool" where
  "match_HH_mm [h1, h2, c, m1, m2] =
     (isdigit h1 \<and> isdigit h2 \<and> c = CHR '':'' \<and> isdigit m1 \<and> isdigit m2)"
| "match_HH_mm [h1, h2, c, m1, m2, nl] =
     (isdigit h1 \<and> isdigit h2 \<and> c = CHR '':'' \<and> isdigit m1 \<and> isdigit m2 \<and> nl = CHR 0x0A)"
| "match_HH_mm _ = False"

text \<open>
  \<open>hour, minute = map(int, start_hour.split(':'))\<close> on a string that matched: \<open>int\<close>
  ignores the final newline and cannot raise on two digits, so the \<open>except ValueError\<close>
  branch is not reached.
\<close>

definition hour_minute :: "string \<Rightarrow> nat \<times> nat" where
  "hour_minute s =
     (10 * digit_value (s ! 0) + digit_value (s ! 1),
      10 * digit_value (s ! 3) + digit_value (s ! 4))"

text \<open>\<open>strftime("%H:%M")\<close>: hour and minute, each on two digits.\<close>

definition two_digits :: "nat \<Rightarrow> string" where
  "two_digits n = [''0123456789'' ! (n div 10), ''0123456789'' ! (n mod 10)]"

definition strftime_HM :: "datetime \<Rightarrow> string" where
  "strftime_HM t = two_digits (hour t) @ '':'' @ two_digits (minute t)"

definition past_message :: "string \<Rightarrow> string \<Rightarrow> string" where
  "past_message start_hour' current_time_str =
     ''The start time you provided ('' @ start_hour' @
     '') is in the past. Please provide a valid start time for today (current time is '' @
     current_time_str @ '').''"

definition validate_start_hour :: "datetime \<Rightarrow> string option \<Rightarrow> bool \<times> string option" where
  "validate_start_hour current_time start_hour' =
     (case start_hour' of
        None \<Rightarrow> (True, None)
      | Some s \<Rightarrow>
          if strip s = [] then (True, None)
          else if \<not> match_HH_mm s
          then (False, Some ''Invalid time format. Please use HH:mm format (e.g., '14:30').'')
          else (case hour_minute s of (h, m) \<Rightarrow>
            if h > 23 then (False, Some ''Invalid hour. Hour must be between 00 and 23.'')
            else if m > 59
            then (False, Some ''Invalid minute. Minute must be between 00 and 59.'')
            else if h < hour current_time \<or> (h = hour current_time \<and> m < minute current_time)
            then (False, Some (past_message s (strftime_HM current_time)))
            else (True, None)))"

section \<open>Intent resolution (app/main.py, parse_intent)\<close>

text \<open>
  The dictionary returned by the extraction oracle. Every key is read with
  \<open>result.get\<close>, so every field is optional: \<open>None\<close> is Python's \<open>None\<close>.
\<close>

record RawIntentGuess =
  location_query :: "string option"
  duration_minutes :: "int option"
  start_hour :: "string option"
  max_price :: "real option"
  preferences :: "Preferences option"
  needs_clarification :: "bool option"
  clarification_message :: "string option"
  is_more_request :: "bool option"
  requested_radius_km :: "real option"
  is_closest_request :: "bool option"
  is_cheapest_request :: "bool option"

text \<open>
  Constructing a \<open>ParseIntentResponse\<close> checks the bounds of its fields
  (\<open>duration_minutes\<close> with \<open>ge=1\<close>, \<open>max_price\<close> and \<open>requested_radius_km\<close> with \<open>ge=0\<close>).
\<close>

definition ParseIntentResponse_init :: "ParseIntentResponse \<Rightarrow> error + ParseIntentResponse" where
  "ParseIntentResponse_init r =
     (if 1 \<le> ParseIntentResponse.duration_minutes r
         \<and> (case ParseIntentResponse.max_price r of None \<Rightarrow> True | Some p \<Rightarrow> 0 \<le> p)
         \<and> (case ParseIntentResponse.requested_radius_km r of None \<Rightarrow> True | Some k \<Rightarrow> 0 \<le> k)
      then Inr r else Inl ValidationError)"

definition create_clarification_response :: "string \<Rightarrow> error + ParseIntentResponse" where
  "create_clarification_response message =
     ParseIntentResponse_init
       \<lparr> ParseIntentResponse.location_query = [],
         ParseIntentResponse.duration_minutes = 1,
         ParseIntentResponse.start_hour = None,
         ParseIntentResponse.max_price = None,
         ParseIntentResponse.preferences = None,
         ParseIntentResponse.needs_clarification = Some True,
         ParseIntentResponse.clarification_message = Some message,
         ParseIntentResponse.is_more_request = Some False,
         ParseIntentResponse.requested_radius_km = None,
         ParseIntentResponse.is_closest_request = Some False,
         ParseIntentResponse.is_cheapest_request = Some False \<rparr>"

text \<open>\<open>not s or s.strip() == ""\<close> for an optional string.\<close>

definition blank :: "string option \<Rightarrow> bool" where
  "blank s = (case s of None \<Rightarrow> True | Some t \<Rightarrow> t = [] \<or> strip t = [])"

text \<open>The \<open>elif\<close> chain of lines 163-178, taken when no clarification message is given.\<close>

definition default_message :: "bool \<Rightarrow> bool \<Rightarrow> bool \<Rightarrow> string" where
  "default_message missing_location missing_duration missing_start_hour =
     (if missing_location \<and> missing_duration \<and> missing_start_hour
      then ''I'd be happy to help you find parking! Could you please tell me where you'd like to park, for how long, and what time you'd like to start? (e.g., 'at 14:30')''
      else if missing_location \<and> missing_duration
      then ''I'd be happy to help you find parking! Could you please tell me where you'd like to park and for how long?''
      else if missing_location \<and> missing_start_hour
      then ''I'd be happy to help you find parking! Could you please tell me where you'd like to park and what time you'd like to start? (e.g., 'at 14:30')''
      else if missing_duration \<and> missing_start_hour
      then ''I'd be happy to help you find parking! Could you please tell me for how long you need to park and what time you'd like to start? (e.g., 'at 14:30')''
      else if missing_location
      then ''I'd be happy to help you find parking! Could you please tell me where you'd like to park?''
      else if missing_duration
      then ''I'd be happy to help you find parking! Could you please tell me for how long you need to park?''
      else if missing_start_hour
      then ''Perfect! What time would you like to start parking? (e.g., 'at 14:30' or 'at 2pm')''
      else ''I need a bit more information to help you find parking. Could you please provide the location, duration, and start time?'')"

text \<open>Lines 161-178: a non-empty clarification message is used as it is.\<close>

definition choose_message :: "string option \<Rightarrow> bool \<Rightarrow> bool \<Rightarrow> bool \<Rightarrow> string" where
  "choose_message clarification_message' missing_location missing_duration missing_start_hour =
     (case clarification_message' of
        Some m \<Rightarrow>
          if m \<noteq> [] then m
          else default_message missing_location missing_duration missing_start_hour
      | None \<Rightarrow> default_message missing_location missing_duration missing_start_hour)"

text \<open>Lines 141-143: which of the three mandatory fields are missing.\<close>

definition missing_duration :: "RawIntentGuess \<Rightarrow> bool" where
  "missing_duration result =
     (case RawIntentGuess.duration_minutes result of None \<Rightarrow> True | Some d \<Rightarrow> d < 1)"

definition missing_location :: "RawIntentGuess \<Rightarrow> bool" where
  "missing_location result = blank (RawIntentGuess.location_query result)"

definition missing_start_hour :: "RawIntentGuess \<Rightarrow> bool" where
  "missing_start_hour result = blank (RawIntentGuess.start_hour result)"

text \<open>
  Lines 145-156: the start hour is validated when it is given. The result is
  \<open>(start_hour_valid, clarification_message, needs_clarification, missing_start_hour)\<close>,
  the values of these four variables after the \<open>if\<close>.
\<close>

definition check_start_hour ::
  "datetime \<Rightarrow> RawIntentGuess \<Rightarrow> bool \<times> string option \<times> bool option \<times> bool" where
  "check_start_hour current_time result =
     (if \<not> blank (RawIntentGuess.start_hour result)
      then (case validate_start_hour current_time (RawIntentGuess.start_hour result) of
              (start_hour_valid, start_hour_error) \<Rightarrow>
                if \<not> start_hour_valid
                then (start_hour_valid, start_hour_error, Some True, missing_start_hour result)
                else (start_hour_valid, RawIntentGuess.clarification_message result,
                      RawIntentGuess.needs_clarification result, missing_start_hour result))
      else (False, RawIntentGuess.clarification_message result,
            RawIntentGuess.needs_clarification result, True))"

text \<open>
  \<open>parse_intent\<close>, from the oracle's reply \<open>result\<close> onwards. A validation error raised
  while the response is built is a \<open>ValueError\<close>, answered with status 400.
\<close>

definition parse_intent :: "datetime \<Rightarrow> RawIntentGuess \<Rightarrow> HTTPException + ParseIntentResponse" where
  "parse_intent current_time result =
     (case check_start_hour current_time result of
        (start_hour_valid, clarification_message', needs_clarification', missing_start_hour') \<Rightarrow>
          (case
             (if truthy needs_clarification' \<or> missing_duration result
                 \<or> missing_location result \<or> missing_start_hour'
              then create_clarification_response
                     (choose_message clarification_message'
                        (missing_location result) (missing_duration result)
                        missing_start_hour')
              else ParseIntentResponse_init
                     \<lparr> ParseIntentResponse.location_query =
                         (case RawIntentGuess.location_query result of
                            None \<Rightarrow> [] | Some l \<Rightarrow> l),
                       ParseIntentResponse.duration_minutes =
                         (case RawIntentGuess.duration_minutes result of
                            None \<Rightarrow> 60 | Some d \<Rightarrow> if d < 1 then 60 else d),
                       ParseIntentResponse.start_hour =
                         (if start_hour_valid then RawIntentGuess.start_hour result else None),
                       ParseIntentResponse.max_price = RawIntentGuess.max_price result,
                       ParseIntentResponse.preferences = RawIntentGuess.preferences result,
                       ParseIntentResponse.needs_clarification = needs_clarification',
                       ParseIntentResponse.clarification_message = clarification_message',
                       ParseIntentResponse.is_more_request = RawIntentGuess.is_more_request result,
                       ParseIntentResponse.requested_radius_km =
                         RawIntentGuess.requested_radius_km result,
                       ParseIntentResponse.is_closest_request =
                         RawIntentGuess.is_closest_request result,
                       ParseIntentResponse.is_cheapest_request =
                         RawIntentGuess.is_cheapest_request result \<rparr>)
           of Inl ValidationError \<Rightarrow> Inl (HTTPException 400)
            | Inr response \<Rightarrow> Inr response))"

section \<open>Conversation context (app/services/ai_logic.py, parse_user_intent)\<close>

definition CONVERSATION_HISTORY_WINDOW :: nat where
  "CONVERSATION_HISTORY_WINDOW = 10"

definition MAX_CONTEXT_LENGTH :: nat where
  "MAX_CONTEXT_LENGTH = 2000"

text \<open>\<open>msg_str = f"{role}: {text}\n"\<close>.\<close>

definition format_message :: "ConversationMessage \<Rightarrow> string" where
  "format_message msg =
     (if is_user msg then ''User'' else ''AI'') @ '': '' @ msg_text msg @ [CHR 0x0A]"

text \<open>
  The loop of lines 55-65 over the messages still to visit, with the loop variables
  \<open>context_parts\<close> and \<open>total_length\<close>; \<open>break\<close> leaves the loop with the parts so far.
\<close>

fun collect_parts :: "ConversationMessage list \<Rightarrow> string list \<Rightarrow> nat \<Rightarrow> string list" where
  "collect_parts [] context_parts total_length = context_parts"
| "collect_parts (msg # rest) context_parts total_length =
     (if total_length + length (format_message msg) > MAX_CONTEXT_LENGTH
      then context_parts
      else collect_parts rest (context_parts @ [format_message msg])
             (total_length + length (format_message msg)))"

text \<open>\<open>conversation_history[-CONVERSATION_HISTORY_WINDOW:]\<close>.\<close>

definition recent_history :: "ConversationMessage list \<Rightarrow> ConversationMessage list" where
  "recent_history conversation_history =
     drop (length conversation_history - CONVERSATION_HISTORY_WINDOW) conversation_history"

text \<open>The parts kept by the loop, the most recent message first.\<close>

definition context_parts :: "ConversationMessage list \<Rightarrow> string list" where
  "context_parts conversation_history =
     collect_parts (rev (recent_history conversation_history)) [] 0"

definition conversation_context :: "ConversationMessage list option \<Rightarrow> string" where
  "conversation_context conversation_history =
     (case conversation_history of
        None \<Rightarrow> []
      | Some history \<Rightarrow>
          if history = [] then []
          else if context_parts history \<noteq> []
          then [CHR 0x0A, CHR 0x0A] @ ''Previous conversation:'' @ [CHR 0x0A]
               @ concat (rev (context_parts history)) @ [CHR 0x0A]
          else [])"

section \<open>Example inputs\<close>

definition example_intent :: "bool \<Rightarrow> bool \<Rightarrow> bool \<Rightarrow> UserIntent" where
  "example_intent want_more want_closest want_cheapest =
     \<lparr> UserIntent.location_query = ''FSEGA'', UserIntent.duration_minutes = 120,
       UserIntent.start_hour = Some ''18:55'', UserIntent.max_price = None,
       UserIntent.preferences = None, UserIntent.is_more_request = Some want_more,
       UserIntent.requested_radius_km = None, UserIntent.is_closest_request = Some want_closest,
       UserIntent.is_cheapest_request = Some want_cheapest \<rparr>"

definition example_slot :: "string \<Rightarrow> int \<Rightarrow> ParkingSlot" where
  "example_slot sid meters =
     \<lparr> ParkingSlot.slot_id = sid, ParkingSlot.lat = 0, ParkingSlot.lng = 0,
       ParkingSlot.price_per_hour = 5, ParkingSlot.distance_m = meters,
       ParkingSlot.is_available = True, ParkingSlot.address = None,
       ParkingSlot.location_name = None, ParkingSlot.covered = None,
       ParkingSlot.safety_rating = None \<rparr>"

definition example_guess :: "string option \<Rightarrow> int option \<Rightarrow> string option \<Rightarrow> RawIntentGuess" where
  "example_guess place minutes start =
     \<lparr> RawIntentGuess.location_query = place, RawIntentGuess.duration_minutes = minutes,
       RawIntentGuess.start_hour = start, RawIntentGuess.max_price = None,
       RawIntentGuess.preferences = None, RawIntentGuess.needs_clarification = Some True,
       RawIntentGuess.clarification_message = None,
       RawIntentGuess.is_more_request = Some True, RawIntentGuess.requested_radius_km = Some 3,
       RawIntentGuess.is_closest_request = Some False,
       RawIntentGuess.is_cheapest_request = Some False \<rparr>"

section \<open>Naming a field in a message\<close>

text \<open>
  What it means for a clarification message to mention one of the three mandatory fields
  by name: the message contains one of the words by which the prompts of \<open>parse_intent\<close>
  ask for that field.
\<close>

datatype field = Location | Duration | StartHour

fun mentions :: "string \<Rightarrow> field \<Rightarrow> bool" where
  "mentions message Location = (sublist ''where'' message \<or> sublist ''location'' message)"
| "mentions message Duration = (sublist ''how long'' message \<or> sublist ''duration'' message)"
| "mentions message StartHour = (sublist ''time'' message \<or> sublist ''start'' message)"

section \<open>Properties of the recommendation\<close>

lemmas example_defs = example_intent_def example_slot_def
lemmas reconcile_defs = recommend_best_slot_def SlotRanking_init_def adjust_ids_def normalize_ids_def
  oracle_ids_def truthy_def add_missing_def ensure_first_def best_first_def sort_reverse_def
  missing_key_def oracle_score_def ranking_dict_def slot_dict_def

subsection \<open>Validation of the ranking\<close>

lemma ranking_items_in_bounds:
  "\<forall>r\<in>set rk. 0 \<le> SlotRanking.score r \<and> SlotRanking.score r \<le> 1 \<Longrightarrow> ranking_items rk = Inr rk"
  by (induction rk) (simp_all add: SlotRanking_init_def)

lemma ranking_items_out_of_bounds:
  "\<not> (\<forall>r\<in>set rk. 0 \<le> SlotRanking.score r \<and> SlotRanking.score r \<le> 1) \<Longrightarrow>
   ranking_items rk = Inl ValidationError"
proof (induction rk)
  case Nil
  then show ?case by simp
next
  case (Cons item items)
  show ?case
  proof (cases "0 \<le> SlotRanking.score item \<and> SlotRanking.score item \<le> 1")
    case True
    with Cons.prems have "\<not> (\<forall>r\<in>set items. 0 \<le> SlotRanking.score r \<and> SlotRanking.score r \<le> 1)"
      by simp
    then have "ranking_items items = Inl ValidationError" by (rule Cons.IH)
    with True show ?thesis by (simp add: SlotRanking_init_def)
  next
    case False
    then show ?thesis by (auto simp: SlotRanking_init_def)
  qed
qed

subsection \<open>The list operations\<close>

lemma set_best_first: "set (best_first best ids) = insert best (set ids)"
  by (auto simp: best_first_def)

lemma distinct_best_first: "distinct ids \<Longrightarrow> distinct (best_first best ids)"
  by (simp add: best_first_def)

lemma best_first_absent: "best \<notin> set ids \<Longrightarrow> best_first best ids = best # ids"
  by (auto simp: best_first_def filter_id_conv)

lemma best_first_head: "distinct (best # ids) \<Longrightarrow> best_first best (best # ids) = best # ids"
  by (auto simp: best_first_def filter_id_conv)

lemma set_normalize_ids:
  "set (normalize_ids result) = insert (RankingResult.best_slot_id result) (set (oracle_ids result))"
  by (auto simp: normalize_ids_def Let_def set_best_first)

lemma distinct_normalize_ids: "distinct (oracle_ids result) \<Longrightarrow> distinct (normalize_ids result)"
  by (simp add: normalize_ids_def Let_def distinct_best_first)

lemma normalize_ids_not_Nil: "normalize_ids result \<noteq> []"
  by (auto simp: normalize_ids_def Let_def best_first_def)

lemma set_ensure_first:
  "ids \<noteq> [] \<Longrightarrow> set (ensure_first best ids) = insert best (set ids)"
  by (cases ids) (auto simp: ensure_first_def set_best_first)

lemma distinct_ensure_first: "distinct ids \<Longrightarrow> distinct (ensure_first best ids)"
  by (cases ids) (auto simp: ensure_first_def best_first_def)

lemma ensure_first_not_Nil: "ids \<noteq> [] \<Longrightarrow> ensure_first best ids \<noteq> []"
  by (cases ids) (auto simp: ensure_first_def best_first_def)

lemma hd_ensure_first: "ids \<noteq> [] \<Longrightarrow> hd (ensure_first best ids) = best"
  by (cases ids) (auto simp: ensure_first_def best_first_def)

lemma set_sort_reverse: "set (sort_reverse f xs) = set xs"
  by (simp add: sort_reverse_def)

lemma distinct_sort_reverse: "distinct (sort_reverse f xs) = distinct xs"
  by (simp add: sort_reverse_def)

lemma sorted_sort_reverse: "sorted_wrt (\<lambda>a b. f b \<le> f a) (sort_reverse f xs)"
proof -
  have "sorted (map f (sort_key f (rev xs)))" by (rule sorted_sort_key)
  then have "sorted_wrt (\<lambda>a b. f a \<le> f b) (sort_key f (rev xs))" by (simp add: sorted_map)
  then show ?thesis by (simp add: sort_reverse_def sorted_wrt_rev)
qed

lemma set_add_missing:
  "set (add_missing rk ss ids) \<subseteq> set ids \<union> set (map ParkingSlot.slot_id ss)"
  by (auto simp: add_missing_def Let_def set_sort_reverse)

lemma distinct_add_missing:
  "distinct ids \<Longrightarrow> distinct (map ParkingSlot.slot_id ss) \<Longrightarrow> distinct (add_missing rk ss ids)"
  by (auto simp: add_missing_def Let_def set_sort_reverse distinct_sort_reverse)

lemma add_missing_Nil: "add_missing rk [] ids = ids"
  by (simp add: add_missing_def)

lemma add_missing_complete:
  assumes "distinct ids" and "set ids \<subseteq> set (map ParkingSlot.slot_id ss)"
    and "distinct (map ParkingSlot.slot_id ss)"
  shows "add_missing rk ss ids =
         ids @ sort_reverse (missing_key rk ss)
                 (filter (\<lambda>sid. sid \<notin> set ids) (map ParkingSlot.slot_id ss))"
proof (cases "length ids < length (map ParkingSlot.slot_id ss)")
  case True
  then show ?thesis by (simp add: add_missing_def Let_def)
next
  case False
  have "card (set ids) = length ids" using assms(1) by (rule distinct_card)
  moreover have "card (set (map ParkingSlot.slot_id ss)) = length (map ParkingSlot.slot_id ss)"
    using assms(3) by (rule distinct_card)
  ultimately have "card (set (map ParkingSlot.slot_id ss)) \<le> card (set ids)"
    using False by simp
  with assms(2) have "set ids = set (map ParkingSlot.slot_id ss)"
    by (intro card_seteq) simp_all
  then have "filter (\<lambda>sid. sid \<notin> set ids) (map ParkingSlot.slot_id ss) = []"
    by (simp add: filter_empty_conv)
  with False show ?thesis by (simp add: add_missing_def Let_def sort_reverse_def)
qed

lemma slot_dict_candidate:
  "distinct (map ParkingSlot.slot_id ss) \<Longrightarrow> s \<in> set ss \<Longrightarrow>
   slot_dict ss (ParkingSlot.slot_id s) = Some s"
  unfolding slot_dict_def
  by (rule map_of_is_SomeI) (simp_all add: rev_map [symmetric] comp_def)


lemma set_ensure_first_subset: "set (ensure_first best ids) \<subseteq> insert best (set ids)"
  by (cases ids) (auto simp: ensure_first_def set_best_first)

lemma set_adjust_ids:
  "set (adjust_ids ui ss result rk)
   \<subseteq> insert (RankingResult.best_slot_id result) (set (oracle_ids result))
     \<union> set (map ParkingSlot.slot_id ss)"
proof -
  let ?best = "RankingResult.best_slot_id result"
  let ?U = "insert ?best (set (oracle_ids result)) \<union> set (map ParkingSlot.slot_id ss)"
  have n: "set (normalize_ids result) \<subseteq> ?U" by (auto simp: set_normalize_ids)
  have "set (add_missing rk ss (normalize_ids result)) \<subseteq> ?U"
    using set_add_missing [of rk ss "normalize_ids result"] n by blast
  then have m: "set (ensure_first ?best (add_missing rk ss (normalize_ids result))) \<subseteq> ?U"
    using set_ensure_first_subset [of ?best "add_missing rk ss (normalize_ids result)"] by blast
  have c: "set (ensure_first ?best (normalize_ids result)) \<subseteq> ?U"
    using set_ensure_first_subset [of ?best "normalize_ids result"] n by blast
  have t: "set (take 10 (normalize_ids result)) \<subseteq> ?U"
    using set_take_subset [of 10 "normalize_ids result"] n by blast
  show ?thesis
    unfolding adjust_ids_def Let_def using n m c t by (simp only: split: if_split) blast
qed

lemma distinct_adjust_ids:
  assumes "distinct (oracle_ids result)" and "distinct (map ParkingSlot.slot_id ss)"
  shows "distinct (adjust_ids ui ss result rk)"
proof -
  have n: "distinct (normalize_ids result)" using assms(1) by (rule distinct_normalize_ids)
  then have "distinct (add_missing rk ss (normalize_ids result))"
    using assms(2) by (rule distinct_add_missing)
  then have m: "distinct (ensure_first (RankingResult.best_slot_id result)
                            (add_missing rk ss (normalize_ids result)))"
    by (rule distinct_ensure_first)
  have c: "distinct (ensure_first (RankingResult.best_slot_id result) (normalize_ids result))"
    using n by (rule distinct_ensure_first)
  have t: "distinct (take 10 (normalize_ids result))" using n by simp
  show ?thesis unfolding adjust_ids_def Let_def using n m c t by simp
qed

lemma recommend_best_slot_in_bounds:
  assumes "\<forall>r\<in>set (RankingResult.ranking result). 0 \<le> SlotRanking.score r \<and> SlotRanking.score r \<le> 1"
  shows "recommend_best_slot ui ss result =
         Inr \<lparr> RecommendSlotResponse.best_slot_id = RankingResult.best_slot_id result,
               RecommendSlotResponse.recommended_slot_ids =
                 adjust_ids ui ss result (RankingResult.ranking result),
               RecommendSlotResponse.ranking = RankingResult.ranking result,
               RecommendSlotResponse.explanation_for_user =
                 RankingResult.explanation_for_user result,
               RecommendSlotResponse.has_more_available =
                 (case RankingResult.has_more_available result of
                    None \<Rightarrow> Some False | Some b \<Rightarrow> Some b) \<rparr>"
  by (simp add: recommend_best_slot_def ranking_items_in_bounds [OF assms])

subsection \<open>Claim C1\<close>

text \<open>
  C1 (as amended). For every request type and every candidate list with pairwise distinct
  slot ids: when the oracle's \<open>best_slot_id\<close> is a candidate id, its recommended list
  holds only candidate ids and no id twice, and its scores lie in \<open>[0, 1]\<close>, the call
  returns a response whose \<open>recommended_slot_ids\<close> holds only candidate ids and no id
  twice. The code neither filters the list against the candidates nor removes repeated
  ids, so this depends on the oracle's reply.
\<close>

theorem recommended_ids_sound_for_sound_oracle:
  assumes "distinct (map ParkingSlot.slot_id ss)"
    and "RankingResult.best_slot_id result \<in> set (map ParkingSlot.slot_id ss)"
    and "distinct (oracle_ids result)"
    and "set (oracle_ids result) \<subseteq> set (map ParkingSlot.slot_id ss)"
    and "\<forall>r\<in>set (RankingResult.ranking result). 0 \<le> SlotRanking.score r \<and> SlotRanking.score r \<le> 1"
  shows "\<exists>response. recommend_best_slot ui ss result = Inr response
           \<and> set (RecommendSlotResponse.recommended_slot_ids response)
               \<subseteq> set (map ParkingSlot.slot_id ss)
           \<and> distinct (RecommendSlotResponse.recommended_slot_ids response)"
proof -
  let ?ids = "adjust_ids ui ss result (RankingResult.ranking result)"
  have "set ?ids \<subseteq> set (map ParkingSlot.slot_id ss)"
    using set_adjust_ids [of ui ss result "RankingResult.ranking result"] assms(2,4) by blast
  moreover have "distinct ?ids" using assms(3,1) by (rule distinct_adjust_ids)
  ultimately show ?thesis by (simp add: recommend_best_slot_in_bounds [OF assms(5)])
qed

text \<open>The theorem at three candidates, a request for more and a one-element list.\<close>

theorem recommended_ids_sound_for_sound_oracle_witness:
  "\<exists>response.
     recommend_best_slot (example_intent True False False)
       [example_slot ''s1'' 150, example_slot ''s2'' 350, example_slot ''s3'' 90]
       \<lparr> RankingResult.best_slot_id = ''s2'',
         RankingResult.recommended_slot_ids = Some [''s1''],
         RankingResult.ranking = [\<lparr> SlotRanking.slot_id = ''s1'', SlotRanking.score = 9/10 \<rparr>],
         RankingResult.explanation_for_user = ''ok'',
         RankingResult.has_more_available = None \<rparr> = Inr response
     \<and> set (RecommendSlotResponse.recommended_slot_ids response) \<subseteq> {''s1'', ''s2'', ''s3''}
     \<and> distinct (RecommendSlotResponse.recommended_slot_ids response)"
  using recommended_ids_sound_for_sound_oracle
    [of "[example_slot ''s1'' 150, example_slot ''s2'' 350, example_slot ''s3'' 90]"
        "\<lparr> RankingResult.best_slot_id = ''s2'',
           RankingResult.recommended_slot_ids = Some [''s1''],
           RankingResult.ranking = [\<lparr> SlotRanking.slot_id = ''s1'', SlotRanking.score = 9/10 \<rparr>],
           RankingResult.explanation_for_user = ''ok'',
           RankingResult.has_more_available = None \<rparr>"
        "example_intent True False False"]
  by (simp add: example_defs oracle_ids_def)

text \<open>
  C1 as stated fails: in a normal request the oracle's list is returned as it is, with
  the unknown id \<open>zz\<close> and the repeated id \<open>s1\<close>.
\<close>

theorem recommended_ids_counterexample:
  "recommend_best_slot (example_intent False False False)
     [example_slot ''s1'' 150, example_slot ''s2'' 350]
     \<lparr> RankingResult.best_slot_id = ''s1'',
       RankingResult.recommended_slot_ids = Some [''s1'', ''zz'', ''s1''],
       RankingResult.ranking = [\<lparr> SlotRanking.slot_id = ''s1'', SlotRanking.score = 9/10 \<rparr>],
       RankingResult.explanation_for_user = ''ok'',
       RankingResult.has_more_available = None \<rparr>
   = Inr \<lparr> RecommendSlotResponse.best_slot_id = ''s1'',
           RecommendSlotResponse.recommended_slot_ids = [''s1'', ''zz'', ''s1''],
           RecommendSlotResponse.ranking = [\<lparr> SlotRanking.slot_id = ''s1'', SlotRanking.score = 9/10 \<rparr>],
           RecommendSlotResponse.explanation_for_user = ''ok'',
           RecommendSlotResponse.has_more_available = Some False \<rparr>
   \<and> \<not> distinct [''s1'', ''zz'', ''s1'']
   \<and> ''zz'' \<notin> set (map ParkingSlot.slot_id [example_slot ''s1'' 150, example_slot ''s2'' 350])"
  by (simp add: example_defs reconcile_defs)

subsection \<open>Claim C6\<close>

text \<open>
  C6 (as amended). The ranking and the explanation are passed through unchanged exactly
  when every score of the oracle's ranking lies in \<open>[0, 1]\<close>: then the call returns a
  response that carries the oracle's ranking and explanation as they are. A ranking entry
  whose score lies outside \<open>[0, 1]\<close> is rejected by the bounds of the \<open>SlotRanking\<close>
  model and the call ends in a validation error instead of a response.
\<close>

theorem ranking_passed_through_when_scores_in_bounds:
  "((\<forall>r\<in>set (RankingResult.ranking result). 0 \<le> SlotRanking.score r \<and> SlotRanking.score r \<le> 1)
      \<longrightarrow> (\<exists>response. recommend_best_slot ui ss result = Inr response
             \<and> RecommendSlotResponse.ranking response = RankingResult.ranking result
             \<and> RecommendSlotResponse.explanation_for_user response
                 = RankingResult.explanation_for_user result))
   \<and> (\<not> (\<forall>r\<in>set (RankingResult.ranking result). 0 \<le> SlotRanking.score r \<and> SlotRanking.score r \<le> 1)
      \<longrightarrow> recommend_best_slot ui ss result = Inl ValidationError)"
proof (intro conjI impI)
  assume "\<forall>r\<in>set (RankingResult.ranking result). 0 \<le> SlotRanking.score r \<and> SlotRanking.score r \<le> 1"
  then show "\<exists>response. recommend_best_slot ui ss result = Inr response
             \<and> RecommendSlotResponse.ranking response = RankingResult.ranking result
             \<and> RecommendSlotResponse.explanation_for_user response
                 = RankingResult.explanation_for_user result"
    by (simp add: recommend_best_slot_in_bounds)
next
  assume "\<not> (\<forall>r\<in>set (RankingResult.ranking result). 0 \<le> SlotRanking.score r \<and> SlotRanking.score r \<le> 1)"
  then have "ranking_items (RankingResult.ranking result) = Inl ValidationError"
    by (rule ranking_items_out_of_bounds)
  then show "recommend_best_slot ui ss result = Inl ValidationError"
    by (simp add: recommend_best_slot_def)
qed

text \<open>The theorem at a score of 0.9, which is passed through, and at a score of -1.\<close>

theorem ranking_passed_through_when_scores_in_bounds_witness:
  "(\<exists>response.
      recommend_best_slot (example_intent False False False) [example_slot ''s1'' 150]
        \<lparr> RankingResult.best_slot_id = ''s1'',
          RankingResult.recommended_slot_ids = Some [''s1''],
          RankingResult.ranking = [\<lparr> SlotRanking.slot_id = ''s1'', SlotRanking.score = 9/10 \<rparr>],
          RankingResult.explanation_for_user = ''Closest to FSEGA.'',
          RankingResult.has_more_available = None \<rparr> = Inr response
      \<and> RecommendSlotResponse.ranking response
          = [\<lparr> SlotRanking.slot_id = ''s1'', SlotRanking.score = 9/10 \<rparr>]
      \<and> RecommendSlotResponse.explanation_for_user response = ''Closest to FSEGA.'')
   \<and> recommend_best_slot (example_intent False False False) [example_slot ''s1'' 150]
        \<lparr> RankingResult.best_slot_id = ''s1'',
          RankingResult.recommended_slot_ids = Some [''s1''],
          RankingResult.ranking = [\<lparr> SlotRanking.slot_id = ''s1'', SlotRanking.score = -1 \<rparr>],
          RankingResult.explanation_for_user = ''Closest to FSEGA.'',
          RankingResult.has_more_available = None \<rparr> = Inl ValidationError"
  using ranking_passed_through_when_scores_in_bounds
    [of "\<lparr> RankingResult.best_slot_id = ''s1'',
          RankingResult.recommended_slot_ids = Some [''s1''],
          RankingResult.ranking = [\<lparr> SlotRanking.slot_id = ''s1'', SlotRanking.score = 9/10 \<rparr>],
          RankingResult.explanation_for_user = ''Closest to FSEGA.'',
          RankingResult.has_more_available = None \<rparr>"
        "example_intent False False False" "[example_slot ''s1'' 150]"]
    ranking_passed_through_when_scores_in_bounds
    [of "\<lparr> RankingResult.best_slot_id = ''s1'',
          RankingResult.recommended_slot_ids = Some [''s1''],
          RankingResult.ranking = [\<lparr> SlotRanking.slot_id = ''s1'', SlotRanking.score = -1 \<rparr>],
          RankingResult.explanation_for_user = ''Closest to FSEGA.'',
          RankingResult.has_more_available = None \<rparr>"
        "example_intent False False False" "[example_slot ''s1'' 150]"]
  by simp

text \<open>
  C6 as stated fails: a ranking entry with score 1.5 is not surfaced, the call raises.
\<close>

theorem score_out_of_bounds_counterexample:
  "recommend_best_slot (example_intent False False False)
     [example_slot ''s1'' 150, example_slot ''s2'' 350]
     \<lparr> RankingResult.best_slot_id = ''s1'',
       RankingResult.recommended_slot_ids = Some [''s1''],
       RankingResult.ranking = [\<lparr> SlotRanking.slot_id = ''s1'', SlotRanking.score = 3/2 \<rparr>],
       RankingResult.explanation_for_user = ''ok'',
       RankingResult.has_more_available = None \<rparr>
   = Inl ValidationError"
  by (simp add: recommend_best_slot_def SlotRanking_init_def)

subsection \<open>Claim C5\<close>

lemma adjust_ids_not_Nil: "adjust_ids ui ss result rk \<noteq> []"
proof -
  have n: "normalize_ids result \<noteq> []" by (rule normalize_ids_not_Nil)
  then have "add_missing rk ss (normalize_ids result) \<noteq> []"
    by (simp add: add_missing_def Let_def)
  then have m: "ensure_first (RankingResult.best_slot_id result)
                  (add_missing rk ss (normalize_ids result)) \<noteq> []"
    by (rule ensure_first_not_Nil)
  have c: "ensure_first (RankingResult.best_slot_id result) (normalize_ids result) \<noteq> []"
    using n by (rule ensure_first_not_Nil)
  show ?thesis unfolding adjust_ids_def Let_def using n m c by simp
qed

text \<open>
  C5 (as amended). An empty candidate list is not rejected: when the oracle's scores are
  within bounds the endpoint answers with a response built from the oracle's reply alone.
  Its \<open>best_slot_id\<close> is the oracle's, and its recommended list is not empty and holds
  only the oracle's best id and the ids of the oracle's list.
\<close>

theorem empty_candidates_answered:
  assumes "RecommendSlotRequest.slots request = []"
    and "\<forall>r\<in>set (RankingResult.ranking result). 0 \<le> SlotRanking.score r \<and> SlotRanking.score r \<le> 1"
  shows "\<exists>response. recommend_slot request result = Inr response
           \<and> RecommendSlotResponse.best_slot_id response = RankingResult.best_slot_id result
           \<and> RecommendSlotResponse.recommended_slot_ids response \<noteq> []
           \<and> set (RecommendSlotResponse.recommended_slot_ids response)
               \<subseteq> insert (RankingResult.best_slot_id result) (set (oracle_ids result))"
proof -
  have "set (adjust_ids (user_intent request) [] result (RankingResult.ranking result))
        \<subseteq> insert (RankingResult.best_slot_id result) (set (oracle_ids result))"
    using set_adjust_ids [of "user_intent request" "[]" result "RankingResult.ranking result"]
    by simp
  then show ?thesis
    by (simp add: recommend_slot_def assms(1) recommend_best_slot_in_bounds [OF assms(2)]
          adjust_ids_not_Nil)
qed

text \<open>The theorem at a normal request without slots and an oracle reply without list.\<close>

theorem empty_candidates_answered_witness:
  "\<exists>response.
     recommend_slot
       \<lparr> user_intent = example_intent False False False,
         location = \<lparr> Location.lat = 46, Location.lng = 23 \<rparr>, slots = [] \<rparr>
       \<lparr> RankingResult.best_slot_id = ''s1'',
         RankingResult.recommended_slot_ids = None,
         RankingResult.ranking = [],
         RankingResult.explanation_for_user = ''ok'',
         RankingResult.has_more_available = None \<rparr> = Inr response
     \<and> RecommendSlotResponse.best_slot_id response = ''s1''
     \<and> RecommendSlotResponse.recommended_slot_ids response \<noteq> []
     \<and> set (RecommendSlotResponse.recommended_slot_ids response) \<subseteq> {''s1''}"
  using empty_candidates_answered
    [of "\<lparr> user_intent = example_intent False False False,
           location = \<lparr> Location.lat = 46, Location.lng = 23 \<rparr>, slots = [] \<rparr>"
        "\<lparr> RankingResult.best_slot_id = ''s1'',
           RankingResult.recommended_slot_ids = None,
           RankingResult.ranking = [],
           RankingResult.explanation_for_user = ''ok'',
           RankingResult.has_more_available = None \<rparr>"]
  by (simp add: oracle_ids_def)

text \<open>
  C5 as stated fails: the request without slots is answered with a response that
  recommends the oracle's \<open>s1\<close>.
\<close>

theorem empty_candidates_counterexample:
  "recommend_slot
     \<lparr> user_intent = example_intent False False False,
       location = \<lparr> Location.lat = 46, Location.lng = 23 \<rparr>, slots = [] \<rparr>
     \<lparr> RankingResult.best_slot_id = ''s1'',
       RankingResult.recommended_slot_ids = None,
       RankingResult.ranking = [],
       RankingResult.explanation_for_user = ''ok'',
       RankingResult.has_more_available = None \<rparr>
   = Inr \<lparr> RecommendSlotResponse.best_slot_id = ''s1'',
           RecommendSlotResponse.recommended_slot_ids = [''s1''],
           RecommendSlotResponse.ranking = [],
           RecommendSlotResponse.explanation_for_user = ''ok'',
           RecommendSlotResponse.has_more_available = Some False \<rparr>"
  by (simp add: recommend_slot_def example_defs reconcile_defs)

subsection \<open>Claim C2\<close>

text \<open>
  C2. In a normal request the oracle's list \<open>[s2, s1]\<close> with best id \<open>s1\<close> is returned
  as it is: the first recommended id is \<open>s2\<close>, not the best id. The branches for the
  other request types put the best id first (\<open>hd_adjust_ids_other_requests\<close> below); the
  normal branch does not.
\<close>

theorem normal_request_best_not_first:
  "recommend_best_slot (example_intent False False False)
     [example_slot ''s1'' 150, example_slot ''s2'' 350]
     \<lparr> RankingResult.best_slot_id = ''s1'',
       RankingResult.recommended_slot_ids = Some [''s2'', ''s1''],
       RankingResult.ranking = [\<lparr> SlotRanking.slot_id = ''s1'', SlotRanking.score = 9/10 \<rparr>,
                                \<lparr> SlotRanking.slot_id = ''s2'', SlotRanking.score = 4/5 \<rparr>],
       RankingResult.explanation_for_user = ''ok'',
       RankingResult.has_more_available = Some False \<rparr>
   = Inr \<lparr> RecommendSlotResponse.best_slot_id = ''s1'',
           RecommendSlotResponse.recommended_slot_ids = [''s2'', ''s1''],
           RecommendSlotResponse.ranking = [\<lparr> SlotRanking.slot_id = ''s1'', SlotRanking.score = 9/10 \<rparr>,
                                \<lparr> SlotRanking.slot_id = ''s2'', SlotRanking.score = 4/5 \<rparr>],
           RecommendSlotResponse.explanation_for_user = ''ok'',
           RecommendSlotResponse.has_more_available = Some False \<rparr>
   \<and> hd [''s2'', ''s1''] \<noteq> ''s1''"
  by (simp add: example_defs reconcile_defs)

lemma hd_adjust_ids_other_requests:
  "truthy (UserIntent.is_more_request ui) \<or> truthy (UserIntent.is_closest_request ui)
     \<or> truthy (UserIntent.is_cheapest_request ui) \<Longrightarrow>
   hd (adjust_ids ui ss result rk) = RankingResult.best_slot_id result"
proof -
  assume a: "truthy (UserIntent.is_more_request ui) \<or> truthy (UserIntent.is_closest_request ui)
     \<or> truthy (UserIntent.is_cheapest_request ui)"
  have n: "normalize_ids result \<noteq> []" by (rule normalize_ids_not_Nil)
  then have "add_missing rk ss (normalize_ids result) \<noteq> []"
    by (simp add: add_missing_def Let_def)
  then have m: "hd (ensure_first (RankingResult.best_slot_id result)
                  (add_missing rk ss (normalize_ids result))) = RankingResult.best_slot_id result"
    by (rule hd_ensure_first)
  have c: "hd (ensure_first (RankingResult.best_slot_id result) (normalize_ids result))
           = RankingResult.best_slot_id result"
    using n by (rule hd_ensure_first)
  show ?thesis unfolding adjust_ids_def Let_def using a m c by auto
qed

subsection \<open>Claim C3\<close>

lemma map_insort_key:
  "map f (insort_key (\<lambda>x. g (f x)) x xs) = insort_key g (f x) (map f xs)"
  by (induction xs) simp_all

lemma map_sort_key: "map f (sort_key (\<lambda>x. g (f x)) xs) = sort_key g (map f xs)"
  by (induction xs) (simp_all add: map_insort_key)

lemma map_sort_reverse: "map f (sort_reverse (\<lambda>x. g (f x)) xs) = sort_reverse g (map f xs)"
  by (simp add: sort_reverse_def rev_map map_sort_key [symmetric])

lemma ensure_first_normalize:
  assumes "distinct (oracle_ids result)" and "RankingResult.best_slot_id result \<notin> set xs"
  shows "ensure_first (RankingResult.best_slot_id result) (normalize_ids result @ xs)
         = best_first (RankingResult.best_slot_id result) (oracle_ids result) @ xs"
proof (cases "oracle_ids result = [] \<or> RankingResult.best_slot_id result \<notin> set (oracle_ids result)")
  case True
  then show ?thesis
    by (auto simp: normalize_ids_def ensure_first_def best_first_def)
next
  case False
  then obtain y ys where o: "oracle_ids result = y # ys" by (cases "oracle_ids result") auto
  from False have n: "normalize_ids result = y # ys" by (auto simp: normalize_ids_def o)
  show ?thesis
  proof (cases "y = RankingResult.best_slot_id result")
    case True
    with assms(1) o have "best_first (RankingResult.best_slot_id result) (y # ys) = y # ys"
      by (simp add: best_first_head)
    with True show ?thesis by (simp add: n o ensure_first_def)
  next
    case False
    with assms(2) show ?thesis
      by (auto simp: n o ensure_first_def best_first_def filter_id_conv)
  qed
qed

lemma missing_key_candidate:
  "distinct (map ParkingSlot.slot_id ss) \<Longrightarrow> s \<in> set ss \<Longrightarrow>
   missing_key rk ss (ParkingSlot.slot_id s)
   = (oracle_score rk (ParkingSlot.slot_id s), - ParkingSlot.distance_m s)"
  by (simp add: missing_key_def slot_dict_candidate)

lemma sorted_missing_slots:
  assumes "distinct (map ParkingSlot.slot_id ss)" and "set xs \<subseteq> set ss"
  shows "sorted_wrt
           (\<lambda>s t. oracle_score rk (ParkingSlot.slot_id t) < oracle_score rk (ParkingSlot.slot_id s)
                 \<or> (oracle_score rk (ParkingSlot.slot_id s) = oracle_score rk (ParkingSlot.slot_id t)
                    \<and> ParkingSlot.distance_m s \<le> ParkingSlot.distance_m t))
           (sort_reverse (\<lambda>s. missing_key rk ss (ParkingSlot.slot_id s)) xs)"
proof (rule sorted_wrt_mono_rel [OF _ sorted_sort_reverse])
  fix s t
  assume "s \<in> set (sort_reverse (\<lambda>s. missing_key rk ss (ParkingSlot.slot_id s)) xs)"
    and "t \<in> set (sort_reverse (\<lambda>s. missing_key rk ss (ParkingSlot.slot_id s)) xs)"
    and le: "missing_key rk ss (ParkingSlot.slot_id t) \<le> missing_key rk ss (ParkingSlot.slot_id s)"
  then have "s \<in> set ss" and "t \<in> set ss" using assms(2) by (auto simp: set_sort_reverse)
  with le assms(1) show
    "oracle_score rk (ParkingSlot.slot_id t) < oracle_score rk (ParkingSlot.slot_id s)
     \<or> (oracle_score rk (ParkingSlot.slot_id s) = oracle_score rk (ParkingSlot.slot_id t)
        \<and> ParkingSlot.distance_m s \<le> ParkingSlot.distance_m t)"
    by (auto simp: missing_key_candidate)
qed



lemma missing_ids_of_slots:
  "map ParkingSlot.slot_id
     (sort_reverse (\<lambda>s. missing_key rk ss (ParkingSlot.slot_id s))
        (filter (\<lambda>s. ParkingSlot.slot_id s \<notin> A) ss))
   = sort_reverse (missing_key rk ss) (filter (\<lambda>sid. sid \<notin> A) (map ParkingSlot.slot_id ss))"
proof -
  have "filter (\<lambda>sid. sid \<notin> A) (map ParkingSlot.slot_id ss)
        = map ParkingSlot.slot_id (filter (\<lambda>s. ParkingSlot.slot_id s \<notin> A) ss)"
    by (simp add: filter_map comp_def)
  then show ?thesis
    by (simp only: map_sort_reverse [of ParkingSlot.slot_id "missing_key rk ss"])
qed

lemma adjust_ids_more:
  assumes more: "truthy (UserIntent.is_more_request ui)"
    and d: "distinct (map ParkingSlot.slot_id ss)"
    and b: "RankingResult.best_slot_id result \<in> set (map ParkingSlot.slot_id ss)"
    and dr: "distinct (oracle_ids result)"
    and sr: "set (oracle_ids result) \<subseteq> set (map ParkingSlot.slot_id ss)"
  shows "adjust_ids ui ss result rk
         = best_first (RankingResult.best_slot_id result) (oracle_ids result)
           @ map ParkingSlot.slot_id
               (sort_reverse (\<lambda>s. missing_key rk ss (ParkingSlot.slot_id s))
                  (filter (\<lambda>s. ParkingSlot.slot_id s \<notin> set (normalize_ids result)) ss))"
proof -
  let ?best = "RankingResult.best_slot_id result"
  let ?n = "normalize_ids result"
  let ?ms = "sort_reverse (\<lambda>s. missing_key rk ss (ParkingSlot.slot_id s))
               (filter (\<lambda>s. ParkingSlot.slot_id s \<notin> set ?n) ss)"
  have setn: "set ?n = insert ?best (set (oracle_ids result))" by (rule set_normalize_ids)
  have dn: "distinct ?n" using dr by (rule distinct_normalize_ids)
  have subn: "set ?n \<subseteq> set (map ParkingSlot.slot_id ss)"
    unfolding setn using b sr by (intro insert_subsetI)
  have am: "add_missing rk ss ?n = ?n @ map ParkingSlot.slot_id ?ms"
    unfolding missing_ids_of_slots by (rule add_missing_complete [OF dn subn d])
  have "?best \<in> set ?n" unfolding setn by (rule insertI1)
  then have nb: "?best \<notin> set (map ParkingSlot.slot_id ?ms)"
    unfolding missing_ids_of_slots set_sort_reverse by simp
  have "adjust_ids ui ss result rk = ensure_first ?best (add_missing rk ss ?n)"
    using more by (simp add: adjust_ids_def Let_def)
  also have "\<dots> = ensure_first ?best (?n @ map ParkingSlot.slot_id ?ms)" by (simp only: am)
  also have "\<dots> = best_first ?best (oracle_ids result) @ map ParkingSlot.slot_id ?ms"
    using dr nb by (rule ensure_first_normalize)
  finally show ?thesis .
qed


lemma Un_Diff_subset: "A \<subseteq> B \<Longrightarrow> A \<union> (B - A) = B"
  by blast

text \<open>
  C3 (as amended). In a request for more, for every candidate list of \<open>K\<close> slots with
  pairwise distinct ids and every oracle reply whose recommended list is a repetition-free
  list of candidate ids, whose \<open>best_slot_id\<close> is a candidate id and whose scores lie in
  \<open>[0, 1]\<close>: the call returns exactly \<open>K\<close> ids, each candidate id exactly once, with
  \<open>best_slot_id\<close> first. The list is the oracle's list with the best id moved to the front,
  followed by the candidates that neither the oracle's list nor the best id names; these are
  ordered by the oracle's ranking score descending (score 0 when the ranking has no entry
  for the slot), equal scores by ascending \<open>distance_m\<close>.
\<close>

theorem more_request_returns_every_candidate_once:
  assumes more: "truthy (UserIntent.is_more_request ui)"
    and d: "distinct (map ParkingSlot.slot_id ss)"
    and b: "RankingResult.best_slot_id result \<in> set (map ParkingSlot.slot_id ss)"
    and dr: "distinct (oracle_ids result)"
    and sr: "set (oracle_ids result) \<subseteq> set (map ParkingSlot.slot_id ss)"
    and inb: "\<forall>r\<in>set (RankingResult.ranking result). 0 \<le> SlotRanking.score r \<and> SlotRanking.score r \<le> 1"
  shows "\<exists>response appended.
           recommend_best_slot ui ss result = Inr response
         \<and> length (RecommendSlotResponse.recommended_slot_ids response) = length ss
         \<and> distinct (RecommendSlotResponse.recommended_slot_ids response)
         \<and> set (RecommendSlotResponse.recommended_slot_ids response) = set (map ParkingSlot.slot_id ss)
         \<and> hd (RecommendSlotResponse.recommended_slot_ids response) = RankingResult.best_slot_id result
         \<and> RecommendSlotResponse.recommended_slot_ids response
             = best_first (RankingResult.best_slot_id result) (oracle_ids result)
               @ map ParkingSlot.slot_id appended
         \<and> distinct appended
         \<and> set appended = {s \<in> set ss. ParkingSlot.slot_id s
                               \<notin> insert (RankingResult.best_slot_id result) (set (oracle_ids result))}
         \<and> sorted_wrt
             (\<lambda>s t. oracle_score (RankingResult.ranking result) (ParkingSlot.slot_id t)
                       < oracle_score (RankingResult.ranking result) (ParkingSlot.slot_id s)
                   \<or> (oracle_score (RankingResult.ranking result) (ParkingSlot.slot_id s)
                        = oracle_score (RankingResult.ranking result) (ParkingSlot.slot_id t)
                      \<and> ParkingSlot.distance_m s \<le> ParkingSlot.distance_m t))
             appended"
proof -
  let ?best = "RankingResult.best_slot_id result"
  let ?rk = "RankingResult.ranking result"
  let ?all = "map ParkingSlot.slot_id ss"
  let ?n = "normalize_ids result"
  let ?ms = "sort_reverse (\<lambda>s. missing_key ?rk ss (ParkingSlot.slot_id s))
               (filter (\<lambda>s. ParkingSlot.slot_id s \<notin> set ?n) ss)"
  let ?ids = "adjust_ids ui ss result ?rk"
  have setn: "set ?n = insert ?best (set (oracle_ids result))" by (rule set_normalize_ids)
  have subn: "set ?n \<subseteq> set ?all"
    unfolding setn using b sr by (intro insert_subsetI)
  have ids: "?ids = best_first ?best (oracle_ids result) @ map ParkingSlot.slot_id ?ms"
    using more d b dr sr by (rule adjust_ids_more)
  have dist: "distinct ?ids" using dr d by (rule distinct_adjust_ids)
  have sm: "set (map ParkingSlot.slot_id ?ms) = set ?all - set ?n"
    unfolding missing_ids_of_slots set_sort_reverse by (simp add: set_diff_eq)
  have "set ?ids = insert ?best (set (oracle_ids result)) \<union> (set ?all - set ?n)"
    by (simp only: ids set_append set_best_first sm)
  also have "\<dots> = set ?n \<union> (set ?all - set ?n)" by (simp only: setn)
  also have "\<dots> = set ?all" using subn by (rule Un_Diff_subset)
  finally have set_ids: "set ?ids = set ?all" .
  have "length ?ids = card (set ?ids)" using dist by (simp only: distinct_card)
  also have "\<dots> = card (set ?all)" by (simp only: set_ids)
  also have "\<dots> = length ?all" using d by (rule distinct_card)
  finally have len: "length ?ids = length ss" by simp
  have hd_ids: "hd ?ids = ?best" by (simp only: ids) (simp add: best_first_def)
  have "distinct ss" using d by (simp add: distinct_map)
  then have dms: "distinct ?ms" by (simp add: distinct_sort_reverse)
  have sms: "set ?ms = {s \<in> set ss. ParkingSlot.slot_id s
                               \<notin> insert ?best (set (oracle_ids result))}"
    by (simp add: set_sort_reverse setn)
  have sorted: "sorted_wrt
             (\<lambda>s t. oracle_score ?rk (ParkingSlot.slot_id t) < oracle_score ?rk (ParkingSlot.slot_id s)
                   \<or> (oracle_score ?rk (ParkingSlot.slot_id s) = oracle_score ?rk (ParkingSlot.slot_id t)
                      \<and> ParkingSlot.distance_m s \<le> ParkingSlot.distance_m t))
             ?ms"
    by (rule sorted_missing_slots [OF d]) (rule filter_is_subset)
  have ex: "\<exists>appended. length ?ids = length ss \<and> distinct ?ids \<and> set ?ids = set ?all
         \<and> hd ?ids = ?best
         \<and> ?ids = best_first ?best (oracle_ids result) @ map ParkingSlot.slot_id appended
         \<and> distinct appended
         \<and> set appended = {s \<in> set ss. ParkingSlot.slot_id s
                               \<notin> insert ?best (set (oracle_ids result))}
         \<and> sorted_wrt
             (\<lambda>s t. oracle_score ?rk (ParkingSlot.slot_id t) < oracle_score ?rk (ParkingSlot.slot_id s)
                   \<or> (oracle_score ?rk (ParkingSlot.slot_id s) = oracle_score ?rk (ParkingSlot.slot_id t)
                      \<and> ParkingSlot.distance_m s \<le> ParkingSlot.distance_m t))
             appended"
    using len dist set_ids hd_ids ids dms sms sorted
    by (intro exI [of _ ?ms] conjI) assumption+
  show ?thesis
    unfolding recommend_best_slot_in_bounds [OF inb] using ex by simp
qed

text \<open>
  The theorem at four candidates, the oracle's list \<open>[s2]\<close> and the best id \<open>s1\<close>.
\<close>

theorem more_request_returns_every_candidate_once_witness:
  "\<exists>response.
     recommend_best_slot (example_intent True False False)
       [example_slot ''s1'' 150, example_slot ''s2'' 350, example_slot ''s3'' 90,
        example_slot ''s4'' 200]
       \<lparr> RankingResult.best_slot_id = ''s1'',
         RankingResult.recommended_slot_ids = Some [''s2''],
         RankingResult.ranking = [\<lparr> SlotRanking.slot_id = ''s1'', SlotRanking.score = 9/10 \<rparr>,
                                  \<lparr> SlotRanking.slot_id = ''s4'', SlotRanking.score = 1/2 \<rparr>],
         RankingResult.explanation_for_user = ''ok'',
         RankingResult.has_more_available = None \<rparr> = Inr response
     \<and> length (RecommendSlotResponse.recommended_slot_ids response) = 4
     \<and> distinct (RecommendSlotResponse.recommended_slot_ids response)
     \<and> set (RecommendSlotResponse.recommended_slot_ids response) = {''s1'', ''s2'', ''s3'', ''s4''}
     \<and> hd (RecommendSlotResponse.recommended_slot_ids response) = ''s1''"
proof -
  let ?ui = "example_intent True False False"
  let ?ss = "[example_slot ''s1'' 150, example_slot ''s2'' 350, example_slot ''s3'' 90,
              example_slot ''s4'' 200]"
  let ?result = "\<lparr> RankingResult.best_slot_id = ''s1'',
         RankingResult.recommended_slot_ids = Some [''s2''],
         RankingResult.ranking = [\<lparr> SlotRanking.slot_id = ''s1'', SlotRanking.score = 9/10 \<rparr>,
                                  \<lparr> SlotRanking.slot_id = ''s4'', SlotRanking.score = 1/2 \<rparr>],
         RankingResult.explanation_for_user = ''ok'',
         RankingResult.has_more_available = None \<rparr>"
  have h1: "truthy (UserIntent.is_more_request ?ui)" by (simp add: example_intent_def truthy_def)
  have ids: "map ParkingSlot.slot_id ?ss = [''s1'', ''s2'', ''s3'', ''s4'']"
    by (simp add: example_slot_def)
  have h2: "distinct (map ParkingSlot.slot_id ?ss)" unfolding ids by simp
  have h3: "RankingResult.best_slot_id ?result \<in> set (map ParkingSlot.slot_id ?ss)"
    unfolding ids by simp
  have h4: "distinct (oracle_ids ?result)" by (simp add: oracle_ids_def)
  have h5: "set (oracle_ids ?result) \<subseteq> set (map ParkingSlot.slot_id ?ss)"
    unfolding ids by (simp add: oracle_ids_def)
  have h6: "\<forall>r\<in>set (RankingResult.ranking ?result). 0 \<le> SlotRanking.score r \<and> SlotRanking.score r \<le> 1"
    by simp
  from more_request_returns_every_candidate_once [OF h1 h2 h3 h4 h5 h6]
  obtain response where r: "recommend_best_slot ?ui ?ss ?result = Inr response"
    and l: "length (RecommendSlotResponse.recommended_slot_ids response) = length ?ss"
    and d: "distinct (RecommendSlotResponse.recommended_slot_ids response)"
    and s: "set (RecommendSlotResponse.recommended_slot_ids response) = set (map ParkingSlot.slot_id ?ss)"
    and h: "hd (RecommendSlotResponse.recommended_slot_ids response) = RankingResult.best_slot_id ?result"
    by blast
  have l': "length (RecommendSlotResponse.recommended_slot_ids response) = 4" using l by simp
  have s': "set (RecommendSlotResponse.recommended_slot_ids response) = {''s1'', ''s2'', ''s3'', ''s4''}"
    using s unfolding ids by simp
  have h': "hd (RecommendSlotResponse.recommended_slot_ids response) = ''s1''" using h by simp
  from r l' d s' h' show ?thesis by (intro exI [of _ response] conjI)
qed

text \<open>
  The same request with a fifth slot: \<open>s4\<close> (score 0.5) comes before \<open>s5\<close> and \<open>s3\<close>
  (no score), and \<open>s5\<close> (60 m) before \<open>s3\<close> (90 m).
\<close>

lemma more_request_example:
  "recommend_best_slot (example_intent True False False)
     [example_slot ''s1'' 150, example_slot ''s2'' 350, example_slot ''s3'' 90,
      example_slot ''s4'' 200, example_slot ''s5'' 60]
     \<lparr> RankingResult.best_slot_id = ''s1'',
       RankingResult.recommended_slot_ids = Some [''s2''],
       RankingResult.ranking = [\<lparr> SlotRanking.slot_id = ''s1'', SlotRanking.score = 9/10 \<rparr>,
                                \<lparr> SlotRanking.slot_id = ''s4'', SlotRanking.score = 1/2 \<rparr>],
       RankingResult.explanation_for_user = ''ok'',
       RankingResult.has_more_available = None \<rparr>
   = Inr \<lparr> RecommendSlotResponse.best_slot_id = ''s1'',
           RecommendSlotResponse.recommended_slot_ids = [''s1'', ''s2'', ''s4'', ''s5'', ''s3''],
           RecommendSlotResponse.ranking = [\<lparr> SlotRanking.slot_id = ''s1'', SlotRanking.score = 9/10 \<rparr>,
                                \<lparr> SlotRanking.slot_id = ''s4'', SlotRanking.score = 1/2 \<rparr>],
           RecommendSlotResponse.explanation_for_user = ''ok'',
           RecommendSlotResponse.has_more_available = Some False \<rparr>"
  by (simp add: example_defs reconcile_defs)

text \<open>
  C3 as stated fails when the oracle's best id is not a candidate: with the candidates
  \<open>s1\<close> and \<open>s2\<close>, the list \<open>[s1]\<close> and the best id \<open>zz\<close>, two ids are returned, and
  \<open>s2\<close> is not among them.
\<close>

theorem more_request_unknown_best_counterexample:
  "recommend_best_slot (example_intent True False False)
     [example_slot ''s1'' 150, example_slot ''s2'' 350]
     \<lparr> RankingResult.best_slot_id = ''zz'',
       RankingResult.recommended_slot_ids = Some [''s1''],
       RankingResult.ranking = [\<lparr> SlotRanking.slot_id = ''s1'', SlotRanking.score = 9/10 \<rparr>],
       RankingResult.explanation_for_user = ''ok'',
       RankingResult.has_more_available = None \<rparr>
   = Inr \<lparr> RecommendSlotResponse.best_slot_id = ''zz'',
           RecommendSlotResponse.recommended_slot_ids = [''zz'', ''s1''],
           RecommendSlotResponse.ranking = [\<lparr> SlotRanking.slot_id = ''s1'', SlotRanking.score = 9/10 \<rparr>],
           RecommendSlotResponse.explanation_for_user = ''ok'',
           RecommendSlotResponse.has_more_available = Some False \<rparr>
   \<and> ''s2'' \<notin> set [''zz'', ''s1'']
   \<and> ''s2'' \<in> set (map ParkingSlot.slot_id [example_slot ''s1'' 150, example_slot ''s2'' 350])"
  by (simp add: example_defs reconcile_defs)

end
